theory Spec2Isabelle
  imports Complex_Main "HOL-Library.Sublist"
begin

section \<open>Python values, exceptions and the environment\<close>

text \<open>
  The values the pipeline passes around are the JSON-representable Python values: the
  keyword results are dict literals of strings, lists and numbers, they are written to the
  cache with \<^verbatim>\<open>json.dump\<close> and read back with \<^verbatim>\<open>json.load\<close>. A dict is an
  association list in insertion order (as Python keeps it); a float is the rational number
  its literal denotes.
\<close>

datatype pyval =
    PNone
  | PBool bool
  | PInt int
  | PFloat rat
  | PStr string
  | PList "pyval list"
  | PDict "(string \<times> pyval) list"

text \<open>Truth value testing, as \<^verbatim>\<open>if not result\<close> does it.\<close>

fun truthy :: "pyval \<Rightarrow> bool" where
  "truthy PNone = False"
| "truthy (PBool b) = b"
| "truthy (PInt i) = (i \<noteq> 0)"
| "truthy (PFloat r) = (r \<noteq> 0)"
| "truthy (PStr s) = (s \<noteq> [])"
| "truthy (PList xs) = (xs \<noteq> [])"
| "truthy (PDict kvs) = (kvs \<noteq> [])"

text \<open>
  An exception is an instance of \<^verbatim>\<open>Exception\<close>: its class name and the text
  \<^verbatim>\<open>str(e)\<close>. A call that may raise returns \<open>exn + 'a\<close>, \<open>Inl\<close> the exception.
\<close>

datatype exn = Exn (exn_class: string) (exn_str: string)

text \<open>The name of a value's type and a quoted name, as Python's messages print them.\<close>

fun type_name :: "pyval \<Rightarrow> string" where
  "type_name PNone = ''NoneType''"
| "type_name (PBool b) = ''bool''"
| "type_name (PInt i) = ''int''"
| "type_name (PFloat r) = ''float''"
| "type_name (PStr s) = ''str''"
| "type_name (PList xs) = ''list''"
| "type_name (PDict kvs) = ''dict''"

definition quoted :: "string \<Rightarrow> string" where
  "quoted s = [CHR 0x27] @ s @ [CHR 0x27]"

text \<open>
  \<^verbatim>\<open>d[key]\<close> on a dict, \<^verbatim>\<open>v.get(key, default)\<close> and \<^verbatim>\<open>len(v)\<close> on any value.
\<close>

definition dict_getitem :: "(string \<times> pyval) list \<Rightarrow> string \<Rightarrow> exn + pyval" where
  "dict_getitem kvs k =
     (case map_of kvs k of
        Some v \<Rightarrow> Inr v
      | None \<Rightarrow> Inl (Exn ''KeyError'' (quoted k)))"

fun py_get :: "pyval \<Rightarrow> string \<Rightarrow> pyval \<Rightarrow> exn + pyval" where
  "py_get (PDict kvs) k d = (case map_of kvs k of Some v \<Rightarrow> Inr v | None \<Rightarrow> Inr d)"
| "py_get v k d =
     Inl (Exn ''AttributeError''
            (quoted (type_name v) @ '' object has no attribute '' @ quoted ''get''))"

fun py_len :: "pyval \<Rightarrow> exn + nat" where
  "py_len (PStr s) = Inr (length s)"
| "py_len (PList xs) = Inr (length xs)"
| "py_len (PDict kvs) = Inr (length kvs)"
| "py_len v =
     Inl (Exn ''TypeError'' (''object of type '' @ quoted (type_name v) @ '' has no len()''))"

text \<open>The value a dict holds under a key, for stating what a result contains.\<close>

fun py_field :: "pyval \<Rightarrow> string \<Rightarrow> pyval option" where
  "py_field (PDict kvs) k = map_of kvs k"
| "py_field v k = None"

text \<open>
  \<^verbatim>\<open>s.replace(old, new)\<close> for a one-character \<open>old\<close> (the only use the sources make
  of it), and \<^verbatim>\<open>os.path.join(a, b)\<close> for two components on a POSIX system.
\<close>

definition str_replace :: "char \<Rightarrow> string \<Rightarrow> string \<Rightarrow> string" where
  "str_replace old new s = concat (map (\<lambda>c. if c = old then new else [c]) s)"

definition path_join :: "string \<Rightarrow> string \<Rightarrow> string" where
  "path_join a b =
     (if b \<noteq> [] \<and> hd b = CHR ''/'' then b
      else if a = [] \<or> last a = CHR ''/'' then a @ b
      else a @ ''/'' @ b)"

text \<open>
  What a run can observe and change. The three providers and the nine stages are the
  calls the claims speak of; every invocation is recorded in \<open>trace\<close>, in order, with
  what it returned or raised.
\<close>

datatype provider = Serpapi | Keywordsurfer | GoogleTrends

datatype stage =
  Discover | Create | Check | Generate | Publish | Apply | Promote | Draft | SetupTracking

datatype event =
    Fetch provider "exn + pyval"
  | Fallback
  | Stage stage "exn + pyval"

text \<open>
  \<^item> \<open>files p\<close>: \<open>None\<close> when \<^verbatim>\<open>os.path.exists(p)\<close> is false; otherwise what
    \<^verbatim>\<open>open(p, 'r')\<close> followed by \<^verbatim>\<open>json.load\<close> gives: the decoded document, or the
    exception raised (unreadable file, malformed JSON).
  \<^item> \<open>write_error p\<close>: the exception \<^verbatim>\<open>open(p, 'w')\<close> raises, if any (missing
    directory, no permission, invalid name).
  \<^item> \<open>clock\<close>, \<open>ticks\<close>: the successive readings of \<^verbatim>\<open>datetime.now().isoformat()\<close>.
  \<^item> \<open>stdout\<close>: the documents printed so far.
\<close>

record world =
  files :: "string \<Rightarrow> (exn + pyval) option"
  write_error :: "string \<Rightarrow> exn option"
  clock :: "nat \<Rightarrow> string"
  ticks :: nat
  trace :: "event list"
  stdout :: "string list"

section \<open>Keyword discovery (pipeline/keyword\_discovery.py)\<close>

text \<open>
  A \<^verbatim>\<open>KeywordDiscovery\<close> object: its cache directory and the three provider methods
  \<^verbatim>\<open>discover\<close> calls through \<^verbatim>\<open>self\<close>.
\<close>

record KeywordDiscovery =
  cache_dir :: string
  try_serpapi :: "string \<Rightarrow> exn + pyval"
  try_keywordsurfer :: "string \<Rightarrow> exn + pyval"
  try_google_trends :: "string \<Rightarrow> exn + pyval"

text \<open>The three simulated providers of the source. Their log lines and the delay of
  \<^verbatim>\<open>time.sleep\<close> change nothing a caller observes and are left out.\<close>

definition sim_serpapi :: "string \<Rightarrow> exn + pyval" where
  "sim_serpapi topic = Inr (PDict [
     (''primary_keyword'', PStr topic),
     (''related_queries'', PList [
        PStr (topic @ '' best practices''),
        PStr (topic @ '' examples''),
        PStr (''how to '' @ topic),
        PStr (topic @ '' tutorial''),
        PStr (topic @ '' for beginners'')]),
     (''top_urls'', PList [
        PStr (''https://example.com/'' @ str_replace (CHR '' '') ''-'' topic @ ''-guide''),
        PStr (''https://example.org/learn-'' @ str_replace (CHR '' '') ''-'' topic),
        PStr (''https://tutorial.com/'' @ str_replace (CHR '' '') ''_'' topic @ ''_101'')]),
     (''metrics'', PDict [
        (''search_volume'', PInt 1200),
        (''cpc'', PFloat (75 / 100)),
        (''competition'', PFloat (65 / 100))]),
     (''source'', PStr ''serpapi_simulation'')])"

definition sim_keywordsurfer :: "string \<Rightarrow> exn + pyval" where
  "sim_keywordsurfer topic = Inr (PDict [
     (''primary_keyword'', PStr topic),
     (''related_queries'', PList [
        PStr (topic @ '' guide''),
        PStr (''best '' @ topic @ '' practices''),
        PStr (topic @ '' tips and tricks''),
        PStr (topic @ '' for professionals''),
        PStr (''advanced '' @ topic)]),
     (''top_urls'', PList [
        PStr (''https://guide.com/complete-'' @ str_replace (CHR '' '') ''-'' topic @ ''-guide''),
        PStr (''https://blog.example.com/mastering-'' @ str_replace (CHR '' '') ''-'' topic),
        PStr (''https://academy.example.org/'' @ str_replace (CHR '' '') ''_'' topic
              @ ''_masterclass'')]),
     (''metrics'', PDict [
        (''search_volume'', PInt 980),
        (''cpc'', PFloat (82 / 100)),
        (''competition'', PFloat (58 / 100))]),
     (''source'', PStr ''keywordsurfer_simulation'')])"

definition sim_google_trends :: "string \<Rightarrow> exn + pyval" where
  "sim_google_trends topic = Inr (PDict [
     (''primary_keyword'', PStr topic),
     (''related_queries'', PList [
        PStr (topic @ '' 2025''),
        PStr (''latest '' @ topic @ '' trends''),
        PStr (topic @ '' innovations''),
        PStr (''future of '' @ topic),
        PStr (topic @ '' industry insights'')]),
     (''top_urls'', PList [
        PStr (''https://trends.google.com/trends/explore?q=''
              @ str_replace (CHR '' '') ''%20'' topic),
        PStr (''https://news.example.com/'' @ str_replace (CHR '' '') ''-'' topic
              @ ''-trends-2025''),
        PStr (''https://research.example.org/future-of-''
              @ str_replace (CHR '' '') ''-'' topic)]),
     (''metrics'', PDict [
        (''search_volume'', PInt 850),
        (''cpc'', PFloat (65 / 100)),
        (''competition'', PFloat (72 / 100))]),
     (''source'', PStr ''google_trends_simulation'')])"

text \<open>
  \<^verbatim>\<open>_fallback_method\<close>: ten templates around the topic, no URLs, every metric
  \<^verbatim>\<open>"unknown"\<close>, and the current time. It reads the clock and cannot raise.
\<close>

definition fallback_queries :: "string \<Rightarrow> pyval list" where
  "fallback_queries topic = [
     PStr (topic @ '' guide''),
     PStr (''how to '' @ topic),
     PStr (''best '' @ topic @ '' practices''),
     PStr (topic @ '' examples''),
     PStr (topic @ '' tutorial''),
     PStr (topic @ '' for beginners''),
     PStr (''advanced '' @ topic),
     PStr (topic @ '' tips''),
     PStr (topic @ '' 2025''),
     PStr (topic @ '' tools'')]"

definition fallback_result :: "string \<Rightarrow> string \<Rightarrow> pyval" where
  "fallback_result topic now = PDict [
     (''primary_keyword'', PStr topic),
     (''related_queries'', PList (fallback_queries topic)),
     (''top_urls'', PList []),
     (''metrics'', PDict [
        (''search_volume'', PStr ''unknown''),
        (''cpc'', PStr ''unknown''),
        (''competition'', PStr ''unknown'')]),
     (''source'', PStr ''fallback_method''),
     (''generated_at'', PStr now)]"

definition fallback_method :: "string \<Rightarrow> world \<Rightarrow> pyval \<times> world" where
  "fallback_method topic w =
     (fallback_result topic (clock w (ticks w)),
      w\<lparr>ticks := ticks w + 1, trace := trace w @ [Fallback]\<rparr>)"

text \<open>
  One \<^verbatim>\<open>try: result = self._try_x(topic) except Exception: warn\<close> block: the call is
  made once; when it raises, \<open>result\<close> keeps the value it had.
\<close>

definition attempt ::
  "provider \<Rightarrow> (string \<Rightarrow> exn + pyval) \<Rightarrow> string \<Rightarrow> pyval \<Rightarrow> world \<Rightarrow> pyval \<times> world" where
  "attempt p fetch topic result w =
     (let out = fetch topic;
          w' = w\<lparr>trace := trace w @ [Fetch p out]\<rparr>
      in case out of Inr v \<Rightarrow> (v, w') | Inl e \<Rightarrow> (result, w'))"

definition cache_key :: "string \<Rightarrow> string" where
  "cache_key topic = str_replace (CHR '' '') ''_'' topic"

definition cache_file :: "KeywordDiscovery \<Rightarrow> string \<Rightarrow> string" where
  "cache_file self topic = path_join (cache_dir self) (cache_key topic @ ''.json'')"

text \<open>
  \<^verbatim>\<open>discover\<close>. A cache file that exists is opened and decoded, and whatever that
  gives (the document, or the exception) is the outcome: neither the read nor the write
  stands in a \<^verbatim>\<open>try\<close>. A written document reads back as the value that was dumped.
\<close>

definition discover :: "KeywordDiscovery \<Rightarrow> string \<Rightarrow> world \<Rightarrow> (exn + pyval) \<times> world" where
  "discover self topic w =
     (case files w (cache_file self topic) of
        Some cached \<Rightarrow> (cached, w)
      | None \<Rightarrow>
         (let (r1, w1) = attempt Serpapi (try_serpapi self) topic PNone w;
              (r2, w2) = (if \<not> truthy r1
                          then attempt Keywordsurfer (try_keywordsurfer self) topic r1 w1
                          else (r1, w1));
              (r3, w3) = (if \<not> truthy r2
                          then attempt GoogleTrends (try_google_trends self) topic r2 w2
                          else (r2, w2));
              (r4, w4) = (if \<not> truthy r3 then fallback_method topic w3 else (r3, w3))
          in case write_error w4 (cache_file self topic) of
               Some e \<Rightarrow> (Inl e, w4)
             | None \<Rightarrow>
                 (Inr r4, w4\<lparr>files := (files w4)(cache_file self topic \<mapsto> Inr r4)\<rparr>)))"

text \<open>
  A provider's fetch succeeds when it returns a value that \<^verbatim>\<open>if not result\<close> lets
  through; it fails when it raises or returns a falsy value.
\<close>

definition succeeds :: "exn + pyval \<Rightarrow> bool" where
  "succeeds out = (case out of Inr v \<Rightarrow> truthy v | Inl e \<Rightarrow> False)"

text \<open>What \<^verbatim>\<open>discover\<close> gives once the chain has settled on \<open>v\<close>: \<open>v\<close>, unless the
  cache write raises.\<close>

definition returned :: "world \<Rightarrow> string \<Rightarrow> pyval \<Rightarrow> exn + pyval" where
  "returned w path v = (case write_error w path of None \<Rightarrow> Inr v | Some e \<Rightarrow> Inl e)"

section \<open>The orchestrator (pipeline/run\_pipeline.py)\<close>

text \<open>
  The stage registry \<^verbatim>\<open>self.modules\<close>: a stage that was not loaded has no entry. The
  keyword stage is a \<^verbatim>\<open>KeywordDiscovery\<close>; the other eight modules are not part of the
  sources, so each is the method the orchestrator calls on it, from its arguments to what
  it returns or raises.
\<close>

record modules =
  keyword :: "KeywordDiscovery option"
  content :: "(pyval \<Rightarrow> exn + pyval) option"
  grammar :: "(pyval \<Rightarrow> exn + pyval) option"
  visual :: "(pyval \<Rightarrow> exn + pyval) option"
  publish :: "(pyval \<Rightarrow> pyval \<Rightarrow> exn + pyval) option"
  monetize :: "(pyval \<Rightarrow> pyval \<Rightarrow> exn + pyval) option"
  social :: "(pyval \<Rightarrow> pyval \<Rightarrow> exn + pyval) option"
  email :: "(pyval \<Rightarrow> pyval \<Rightarrow> exn + pyval) option"
  analytics :: "(pyval \<Rightarrow> exn + pyval) option"

text \<open>
  The body of the \<^verbatim>\<open>try\<close> block is a sequence of steps, each of which may raise and
  end the block: \<open>bind\<close> runs a step and hands its value to the rest.
\<close>

type_synonym 'a prog = "world \<Rightarrow> (exn + 'a) \<times> world"

definition bind :: "'a prog \<Rightarrow> ('a \<Rightarrow> 'b prog) \<Rightarrow> 'b prog" where
  "bind p f w = (case p w of (Inl e, w') \<Rightarrow> (Inl e, w') | (Inr x, w') \<Rightarrow> f x w')"

definition lookup :: "'a option \<Rightarrow> string \<Rightarrow> 'a prog" where
  "lookup entry name w =
     (case entry of
        Some x \<Rightarrow> (Inr x, w)
      | None \<Rightarrow> (Inl (Exn ''KeyError'' (quoted name)), w))"

definition call :: "stage \<Rightarrow> exn + pyval \<Rightarrow> pyval prog" where
  "call k out w = (out, w\<lparr>trace := trace w @ [Stage k out]\<rparr>)"

definition call_discover :: "KeywordDiscovery \<Rightarrow> string \<Rightarrow> pyval prog" where
  "call_discover kd topic w =
     (let (out, w1) = discover kd topic w
      in (out, w1\<lparr>trace := trace w1 @ [Stage Discover out]\<rparr>))"

definition len_of :: "pyval \<Rightarrow> nat prog" where
  "len_of v w = (py_len v, w)"

definition run_try :: "modules \<Rightarrow> string \<Rightarrow> ((string \<times> pyval) list) prog" where
  "run_try m topic =
     bind (lookup (keyword m) ''keyword'') (\<lambda>kd.
     bind (call_discover kd topic) (\<lambda>keywords.
     bind (lookup (content m) ''content'') (\<lambda>create.
     bind (call Create (create keywords)) (\<lambda>content0.
     bind (lookup (grammar m) ''grammar'') (\<lambda>check.
     bind (call Check (check content0)) (\<lambda>content1.
     bind (lookup (visual m) ''visual'') (\<lambda>generate.
     bind (call Generate (generate content1)) (\<lambda>images.
     bind (len_of images) (\<lambda>n_images.
     bind (lookup (publish m) ''publish'') (\<lambda>publish_to.
     bind (call Publish (publish_to content1 images)) (\<lambda>url.
     bind (lookup (monetize m) ''monetize'') (\<lambda>apply_to.
     bind (call Apply (apply_to content1 url)) (\<lambda>monetized_content.
     bind (lookup (social m) ''social'') (\<lambda>promote.
     bind (call Promote (promote url content1)) (\<lambda>social_posts.
     bind (len_of social_posts) (\<lambda>n_posts.
     bind (lookup (email m) ''email'') (\<lambda>draft.
     bind (call Draft (draft url content1)) (\<lambda>email_draft.
     bind (lookup (analytics m) ''analytics'') (\<lambda>setup_tracking.
     bind (call SetupTracking (setup_tracking url)) (\<lambda>tracking.
     (\<lambda>w. (Inr [(''status'', PStr ''success''),
                (''url'', url),
                (''social_posts'', social_posts),
                (''email_draft'', email_draft)], w))))))))))))))))))))))"

text \<open>\<^verbatim>\<open>run\<close>: the \<^verbatim>\<open>try\<close> block, and the handler that turns an exception into
  the error result.\<close>

definition run :: "modules \<Rightarrow> string \<Rightarrow> world \<Rightarrow> (string \<times> pyval) list \<times> world" where
  "run m topic w =
     (case run_try m topic w of
        (Inr result, w') \<Rightarrow> (result, w')
      | (Inl e, w') \<Rightarrow> ([(''status'', PStr ''error''), (''message'', PStr (exn_str e))], w'))"

abbreviation error_result :: "exn \<Rightarrow> (string \<times> pyval) list" where
  "error_result e \<equiv> [(''status'', PStr ''error''), (''message'', PStr (exn_str e))]"

text \<open>
  The stage events among a list of events, the stages they name, and the events a run
  added to the trace.
\<close>

fun is_stage :: "event \<Rightarrow> bool" where
  "is_stage (Stage k out) = True"
| "is_stage ev = False"

definition stage_events :: "event list \<Rightarrow> event list" where
  "stage_events evs = filter is_stage evs"

definition new_events :: "world \<Rightarrow> world \<Rightarrow> event list" where
  "new_events w w' = drop (length (trace w)) (trace w')"

fun stages_of :: "event list \<Rightarrow> stage list" where
  "stages_of [] = []"
| "stages_of (Stage k out # evs) = k # stages_of evs"
| "stages_of (ev # evs) = stages_of evs"

fun returns :: "event \<Rightarrow> bool" where
  "returns (Stage k (Inr v)) = True"
| "returns ev = False"

definition stage_order :: "stage list" where
  "stage_order =
     [Discover, Create, Check, Generate, Publish, Apply, Promote, Draft, SetupTracking]"

definition stages_upto :: "stage \<Rightarrow> stage list" where
  "stages_upto k = takeWhile (\<lambda>s. s \<noteq> k) stage_order @ [k]"

text \<open>
  The stage events a sequence of steps over the stages \<open>ks\<close> can leave, with its outcome:
  each stage returns in turn; the run ends with the last stage's return, or earlier with
  a stage that raises (and nothing after it), or between two stages.
\<close>

inductive shape :: "stage list \<Rightarrow> event list \<Rightarrow> exn + 'a \<Rightarrow> bool" where
  completed: "shape [] [] (Inr d)"
| aborted: "ks \<noteq> [] \<Longrightarrow> shape ks [] (Inl e)"
| raised: "shape (k # ks) [Stage k (Inl e)] (Inl e)"
| returned: "shape ks evs out \<Longrightarrow> shape (k # ks) (Stage k (Inr v) # evs) out"

definition ok :: "stage list \<Rightarrow> 'a prog \<Rightarrow> bool" where
  "ok ks p \<longleftrightarrow>
     (\<forall>w out w'. p w = (out, w') \<longrightarrow>
        (\<exists>new. trace w' = trace w @ new \<and> shape ks (stage_events new) out))"

definition keeps_stdout :: "'a prog \<Rightarrow> bool" where
  "keeps_stdout p \<longleftrightarrow> (\<forall>w. stdout (snd (p w)) = stdout w)"

section \<open>Construction and the command line\<close>

text \<open>
  What construction and the entry point take from outside the sources: the configuration
  file (\<^verbatim>\<open>open\<close> and \<^verbatim>\<open>yaml.safe_load\<close>), the imports of the nine stage classes,
  \<^verbatim>\<open>os.makedirs\<close>, the constructors of the eight classes that are not part of the
  sources, and \<^verbatim>\<open>json.dumps\<close>, which returns the text of the document or raises
  \<^verbatim>\<open>TypeError\<close> on a value it cannot serialise (an object a stage outside the
  sources put into its return value).
\<close>

record env =
  read_config :: "string \<Rightarrow> exn + pyval"
  import_error :: "exn option"
  makedirs_error :: "string \<Rightarrow> exn option"
  ContentCreation :: "pyval \<Rightarrow> exn + (pyval \<Rightarrow> exn + pyval)"
  GrammarStyleChecker :: "pyval \<Rightarrow> exn + (pyval \<Rightarrow> exn + pyval)"
  VisualGenerator :: "pyval \<Rightarrow> exn + (pyval \<Rightarrow> exn + pyval)"
  Publisher :: "pyval \<Rightarrow> exn + (pyval \<Rightarrow> pyval \<Rightarrow> exn + pyval)"
  MonetizationManager :: "pyval \<Rightarrow> exn + (pyval \<Rightarrow> pyval \<Rightarrow> exn + pyval)"
  SocialPromotion :: "pyval \<Rightarrow> exn + (pyval \<Rightarrow> pyval \<Rightarrow> exn + pyval)"
  EmailDrafter :: "pyval \<Rightarrow> exn + (pyval \<Rightarrow> pyval \<Rightarrow> exn + pyval)"
  AnalyticsTracker :: "pyval \<Rightarrow> exn + (pyval \<Rightarrow> exn + pyval)"
  json_dumps :: "nat \<Rightarrow> pyval \<Rightarrow> exn + string"

text \<open>\<^verbatim>\<open>KeywordDiscovery.__init__\<close>: the cache directory from the configuration, created
  if absent.\<close>

definition KeywordDiscovery_init :: "env \<Rightarrow> pyval \<Rightarrow> exn + KeywordDiscovery" where
  "KeywordDiscovery_init env config =
     (case py_get (if truthy config then config else PDict []) ''cache_dir''
             (PStr ''cache/keywords'') of
        Inl e \<Rightarrow> Inl e
      | Inr (PStr dir) \<Rightarrow>
          (case makedirs_error env dir of
             Some e \<Rightarrow> Inl e
           | None \<Rightarrow>
               Inr \<lparr>cache_dir = dir,
                    try_serpapi = sim_serpapi,
                    try_keywordsurfer = sim_keywordsurfer,
                    try_google_trends = sim_google_trends\<rparr>)
      | Inr v \<Rightarrow>
          Inl (Exn ''TypeError''
                 (''expected str, bytes or os.PathLike object, not '' @ type_name v)))"

text \<open>\<^verbatim>\<open>_load_config\<close>: the parsed file, or the empty mapping when reading it raises.\<close>

definition load_config :: "env \<Rightarrow> string \<Rightarrow> pyval" where
  "load_config env config_path =
     (case read_config env config_path of Inr v \<Rightarrow> v | Inl e \<Rightarrow> PDict [])"

text \<open>
  \<^verbatim>\<open>_load_modules\<close>: the imports, then the nine constructors in order, each on its
  option group \<^verbatim>\<open>self.config.get(key, {})\<close>. The first exception ends the loading and
  leaves the registry with the stages constructed so far: \<open>then_load\<close> runs one
  registration and, unless it raised, the rest.
\<close>

definition construct :: "pyval \<Rightarrow> string \<Rightarrow> (pyval \<Rightarrow> exn + 'a) \<Rightarrow> exn + 'a" where
  "construct config key new =
     (case py_get config key (PDict []) of Inl e \<Rightarrow> Inl e | Inr options \<Rightarrow> new options)"

definition empty_modules :: modules where
  "empty_modules =
     \<lparr>keyword = None, content = None, grammar = None, visual = None, publish = None,
      monetize = None, social = None, email = None, analytics = None\<rparr>"

definition register ::
  "pyval \<Rightarrow> string \<Rightarrow> (pyval \<Rightarrow> exn + 'a) \<Rightarrow> ('a \<Rightarrow> modules \<Rightarrow> modules) \<Rightarrow> modules
     \<Rightarrow> exn + modules" where
  "register config key new store m =
     (case construct config key new of Inl e \<Rightarrow> Inl e | Inr s \<Rightarrow> Inr (store s m))"

definition then_load ::
  "(modules \<Rightarrow> exn + modules) \<Rightarrow> (modules \<Rightarrow> modules) \<Rightarrow> modules \<Rightarrow> modules" where
  "then_load step rest m = (case step m of Inl e \<Rightarrow> m | Inr m' \<Rightarrow> rest m')"

definition load_modules :: "env \<Rightarrow> pyval \<Rightarrow> modules" where
  "load_modules env config =
     (case import_error env of
        Some e \<Rightarrow> empty_modules
      | None \<Rightarrow>
         (then_load (register config ''keyword_discovery'' (KeywordDiscovery_init env)
                      (\<lambda>s m. m\<lparr>keyword := Some s\<rparr>))
         (then_load (register config ''content_creation'' (ContentCreation env)
                      (\<lambda>s m. m\<lparr>content := Some s\<rparr>))
         (then_load (register config ''grammar_check'' (GrammarStyleChecker env)
                      (\<lambda>s m. m\<lparr>grammar := Some s\<rparr>))
         (then_load (register config ''visual_generator'' (VisualGenerator env)
                      (\<lambda>s m. m\<lparr>visual := Some s\<rparr>))
         (then_load (register config ''publisher'' (Publisher env)
                      (\<lambda>s m. m\<lparr>publish := Some s\<rparr>))
         (then_load (register config ''monetization'' (MonetizationManager env)
                      (\<lambda>s m. m\<lparr>monetize := Some s\<rparr>))
         (then_load (register config ''social_promotion'' (SocialPromotion env)
                      (\<lambda>s m. m\<lparr>social := Some s\<rparr>))
         (then_load (register config ''email_drafter'' (EmailDrafter env)
                      (\<lambda>s m. m\<lparr>email := Some s\<rparr>))
         (then_load (register config ''analytics'' (AnalyticsTracker env)
                      (\<lambda>s m. m\<lparr>analytics := Some s\<rparr>))
         (\<lambda>m. m)))))))))) empty_modules)"

definition BlogPipeline_init :: "env \<Rightarrow> string \<Rightarrow> modules" where
  "BlogPipeline_init env config_path = load_modules env (load_config env config_path)"

text \<open>
  \<^verbatim>\<open>main\<close>. \<^verbatim>\<open>parser.parse_args()\<close> either returns the namespace with the topic
  and the configuration path, or ends the process: \<open>Exits status printed\<close> is its exit
  status and what it printed on standard output before (the help text and status 0 for
  \<^verbatim>\<open>--help\<close>; nothing and status 2 for a usage error, whose message goes to standard
  error). When \<^verbatim>\<open>json.dumps\<close> raises, nothing is printed and the exception leaves
  \<^verbatim>\<open>main\<close>. The script is \<^verbatim>\<open>sys.exit(main())\<close>; an uncaught exception ends it
  with status 1.
\<close>

datatype parse_result = Exits int "string list" | Namespace string string

datatype main_outcome = Return int | SystemExit int | Uncaught exn

definition main :: "env \<Rightarrow> parse_result \<Rightarrow> world \<Rightarrow> main_outcome \<times> world" where
  "main env parsed w =
     (case parsed of
        Exits status printed \<Rightarrow> (SystemExit status, w\<lparr>stdout := stdout w @ printed\<rparr>)
      | Namespace topic config_path \<Rightarrow>
          (let pipeline = BlogPipeline_init env config_path;
               (result, w1) = run pipeline topic w
           in case json_dumps env 2 (PDict result) of
                Inl e \<Rightarrow> (Uncaught e, w1)
              | Inr document \<Rightarrow>
                  (let w2 = w1\<lparr>stdout := stdout w1 @ [document]\<rparr>
                   in case dict_getitem result ''status'' of
                        Inl e \<Rightarrow> (Uncaught e, w2)
                      | Inr s \<Rightarrow> (Return (if s = PStr ''success'' then 0 else 1), w2))))"

definition script :: "env \<Rightarrow> parse_result \<Rightarrow> world \<Rightarrow> int \<times> world" where
  "script env parsed w =
     (case main env parsed w of
        (Return status, w') \<Rightarrow> (status, w')
      | (SystemExit status, w') \<Rightarrow> (status, w')
      | (Uncaught e, w') \<Rightarrow> (1, w'))"

section \<open>Example inputs\<close>

text \<open>
  A discovery object as the constructor builds it by default, one whose three providers
  are unreachable, and one where only the first is (the scenario P1 fails, P2 and P3
  succeed).
\<close>

definition raising :: "string \<Rightarrow> string \<Rightarrow> exn + pyval" where
  "raising msg topic = Inl (Exn ''ConnectionError'' msg)"

definition default_discovery :: KeywordDiscovery where
  "default_discovery =
     \<lparr>cache_dir = ''cache/keywords'',
      try_serpapi = sim_serpapi,
      try_keywordsurfer = sim_keywordsurfer,
      try_google_trends = sim_google_trends\<rparr>"

definition offline_discovery :: KeywordDiscovery where
  "offline_discovery =
     \<lparr>cache_dir = ''cache/keywords'',
      try_serpapi = raising ''serpapi unreachable'',
      try_keywordsurfer = raising ''keywordsurfer unreachable'',
      try_google_trends = raising ''trends unreachable''\<rparr>"

definition second_discovery :: KeywordDiscovery where
  "second_discovery = default_discovery\<lparr>try_serpapi := raising ''serpapi unreachable''\<rparr>"

definition empty_discovery :: KeywordDiscovery where
  "empty_discovery = default_discovery\<lparr>try_serpapi := (\<lambda>topic. Inr (PDict []))\<rparr>"

text \<open>
  Worlds: an empty cache directory in which every file can be written; the same, where
  the subdirectory \<^verbatim>\<open>cache/keywords/AI\<close> does not exist; a cache whose entry for
  \<^verbatim>\<open>espresso machines\<close> is not a JSON document; a cache that holds a result.
\<close>

definition fresh_world :: world where
  "fresh_world =
     \<lparr>files = (\<lambda>p. None),
      write_error = (\<lambda>p. None),
      clock = (\<lambda>n. ''2025-01-01T00:00:00''),
      ticks = 0,
      trace = [],
      stdout = []\<rparr>"

definition no_such_directory :: "string \<Rightarrow> exn" where
  "no_such_directory p =
     Exn ''FileNotFoundError'' (''[Errno 2] No such file or directory: '' @ quoted p)"

definition flat_cache_world :: world where
  "flat_cache_world =
     fresh_world\<lparr>write_error :=
       (\<lambda>p. if p = ''cache/keywords/AI/ML.json'' then Some (no_such_directory p) else None)\<rparr>"

definition malformed :: exn where
  "malformed = Exn ''JSONDecodeError'' ''Expecting value: line 1 column 1 (char 0)''"

definition corrupt_cache_world :: world where
  "corrupt_cache_world =
     fresh_world\<lparr>files :=
       (\<lambda>p. if p = ''cache/keywords/espresso_machines.json'' then Some (Inl malformed)
            else None)\<rparr>"

definition cached_result :: pyval where
  "cached_result =
     PDict [(''primary_keyword'', PStr ''espresso machines''),
            (''source'', PStr ''keywordsurfer_simulation'')]"

definition warm_cache_world :: world where
  "warm_cache_world =
     fresh_world\<lparr>files :=
       (\<lambda>p. if p = ''cache/keywords/espresso_machines.json'' then Some (Inr cached_result)
            else None)\<rparr>"

text \<open>The world after the first discovery of \<^verbatim>\<open>remote work\<close> in the fresh world: one
  fetch in the trace and the result in the cache.\<close>

definition discovered_world :: world where
  "discovered_world =
     fresh_world\<lparr>trace := [Fetch Serpapi (sim_serpapi ''remote work'')],
                 files := (files fresh_world)
                   (''cache/keywords/remote_work.json'' \<mapsto> sim_serpapi ''remote work'')\<rparr>"

text \<open>A registry of stub stages that all succeed, and variants in which one stage
  misbehaves.\<close>

definition stub_modules :: modules where
  "stub_modules =
     \<lparr>keyword = Some default_discovery,
      content = Some (\<lambda>keywords. Inr (PStr ''draft'')),
      grammar = Some (\<lambda>body. Inr (PStr ''checked draft'')),
      visual = Some (\<lambda>body. Inr (PList [PStr ''cover.png''])),
      publish = Some (\<lambda>body images. Inr (PStr ''https://blog.example.com/remote-work'')),
      monetize = Some (\<lambda>body url. Inr (PStr ''monetized draft'')),
      social = Some (\<lambda>url body. Inr (PList [PStr ''post 1'', PStr ''post 2''])),
      email = Some (\<lambda>url body. Inr (PStr ''newsletter'')),
      analytics = Some (\<lambda>url. Inr PNone)\<rparr>"

definition grammar_fails :: modules where
  "grammar_fails =
     stub_modules\<lparr>grammar := Some (\<lambda>body. Inl (Exn ''ValueError'' ''style check failed''))\<rparr>"


definition help_text :: string where
  "help_text = ''usage: run_pipeline.py [-h] [--config CONFIG] topic''"

definition stub_env :: env where
  "stub_env =
     \<lparr>read_config = (\<lambda>path. Inr (PDict [])),
      import_error = None,
      makedirs_error = (\<lambda>dir. None),
      ContentCreation = (\<lambda>config. Inr (\<lambda>keywords. Inr (PStr ''draft''))),
      GrammarStyleChecker = (\<lambda>config. Inr (\<lambda>body. Inr (PStr ''checked draft''))),
      VisualGenerator = (\<lambda>config. Inr (\<lambda>body. Inr (PList [PStr ''cover.png'']))),
      Publisher =
        (\<lambda>config. Inr (\<lambda>body images. Inr (PStr ''https://blog.example.com/remote-work''))),
      MonetizationManager = (\<lambda>config. Inr (\<lambda>body url. Inr (PStr ''monetized draft''))),
      SocialPromotion =
        (\<lambda>config. Inr (\<lambda>url body. Inr (PList [PStr ''post 1'', PStr ''post 2'']))),
      EmailDrafter = (\<lambda>config. Inr (\<lambda>url body. Inr (PStr ''newsletter''))),
      AnalyticsTracker = (\<lambda>config. Inr (\<lambda>url. Inr PNone)),
      json_dumps = (\<lambda>indent v. Inr ''{}'')\<rparr>"

section \<open>Properties of keyword discovery\<close>

lemma str_replace_char:
  "str_replace old [new] s = map (\<lambda>c. if c = old then new else c) s"
  by (induction s) (simp_all add: str_replace_def)

lemma discover_cached:
  "files w (cache_file self topic) = Some c \<Longrightarrow> discover self topic w = (c, w)"
  by (simp add: discover_def)

lemma discover_trace:
  "\<exists>fs. trace (snd (discover kd topic w)) = trace w @ fs \<and> stage_events fs = []"
  by (auto simp: discover_def attempt_def Let_def fallback_method_def stage_events_def
           split: sum.splits option.splits)

lemma discover_stdout: "stdout (snd (discover kd topic w)) = stdout w"
  by (auto simp: discover_def attempt_def Let_def fallback_method_def
           split: sum.splits option.splits)

lemma fallback_queries_shape:
  "\<exists>qs. fallback_queries topic = map PStr qs \<and> length qs = 10 \<and>
        (\<forall>q \<in> set qs. sublist topic q)"
proof -
  let ?qs = "[topic @ '' guide'', ''how to '' @ topic, ''best '' @ topic @ '' practices'',
              topic @ '' examples'', topic @ '' tutorial'', topic @ '' for beginners'',
              ''advanced '' @ topic, topic @ '' tips'', topic @ '' 2025'', topic @ '' tools'']"
  have "fallback_queries topic = map PStr ?qs"
    by (simp add: fallback_queries_def)
  moreover have "length ?qs = 10" by simp
  moreover have "\<forall>q \<in> set ?qs. sublist topic q"
    using sublist_appendI [of topic "''best ''" "'' practices''"]
    by (auto simp del: append.simps)
  ultimately show ?thesis by blast
qed

lemma discover_miss_result:
  assumes "files w (cache_file self topic) = None"
  shows "fst (discover self topic w) =
           returned w (cache_file self topic)
             (if succeeds (try_serpapi self topic) then projr (try_serpapi self topic)
              else if succeeds (try_keywordsurfer self topic)
                then projr (try_keywordsurfer self topic)
              else if succeeds (try_google_trends self topic)
                then projr (try_google_trends self topic)
              else fallback_result topic (clock w (ticks w)))"
  using assms
  by (auto simp: discover_def attempt_def returned_def succeeds_def Let_def
                 fallback_method_def
           split: sum.splits option.splits)

lemma discover_miss_events:
  assumes "files w (cache_file self topic) = None"
  shows "new_events w (snd (discover self topic w)) =
           Fetch Serpapi (try_serpapi self topic) #
           (if succeeds (try_serpapi self topic) then []
            else Fetch Keywordsurfer (try_keywordsurfer self topic) #
            (if succeeds (try_keywordsurfer self topic) then []
             else Fetch GoogleTrends (try_google_trends self topic) #
             (if succeeds (try_google_trends self topic) then [] else [Fallback])))"
  using assms
  by (auto simp: discover_def attempt_def succeeds_def Let_def new_events_def
                 fallback_method_def
           split: sum.splits option.splits)

lemma returned_truthy: "truthy r \<Longrightarrow> \<not> truthy v \<Longrightarrow> returned w p r \<noteq> Inr v"
  by (auto simp: returned_def split: option.splits)

lemma fallback_truthy: "truthy (fallback_result topic now)"
  by (simp add: fallback_result_def)

lemma succeeds_projr: "succeeds out \<Longrightarrow> truthy (projr out)"
  by (cases out) (simp_all add: succeeds_def)

lemma discover_never_falsy:
  assumes "files w (cache_file self topic) = None" and "\<not> truthy v"
  shows "fst (discover self topic w) \<noteq> Inr v"
  unfolding discover_miss_result [OF assms(1)]
  by (rule returned_truthy [OF _ assms(2)]) (simp add: succeeds_projr fallback_truthy)

lemma falsy_serpapi:
  assumes miss: "files w (cache_file self topic) = None"
      and v: "try_serpapi self topic = Inr v" "\<not> truthy v"
  shows "take 2 (new_events w (snd (discover self topic w))) =
           [Fetch Serpapi (Inr v), Fetch Keywordsurfer (try_keywordsurfer self topic)]"
    and "fst (discover (self\<lparr>try_serpapi := (\<lambda>t. Inl e)\<rparr>) topic w)
           = fst (discover self topic w)"
proof -
  have s1: "\<not> succeeds (try_serpapi self topic)"
    using v by (simp add: succeeds_def)
  show "take 2 (new_events w (snd (discover self topic w))) =
           [Fetch Serpapi (Inr v), Fetch Keywordsurfer (try_keywordsurfer self topic)]"
    using s1 v(1) by (simp add: discover_miss_events [OF miss])
  have miss': "files w (cache_file (self\<lparr>try_serpapi := (\<lambda>t. Inl e)\<rparr>) topic) = None"
    using miss by (simp add: cache_file_def)
  show "fst (discover (self\<lparr>try_serpapi := (\<lambda>t. Inl e)\<rparr>) topic w)
           = fst (discover self topic w)"
    unfolding discover_miss_result [OF miss] discover_miss_result [OF miss']
    using s1 by (simp add: succeeds_def cache_file_def)
qed

lemma falsy_keywordsurfer:
  assumes miss: "files w (cache_file self topic) = None"
      and s1: "\<not> succeeds (try_serpapi self topic)"
      and v: "try_keywordsurfer self topic = Inr v" "\<not> truthy v"
  shows "take 3 (new_events w (snd (discover self topic w))) =
           [Fetch Serpapi (try_serpapi self topic), Fetch Keywordsurfer (Inr v),
            Fetch GoogleTrends (try_google_trends self topic)]"
    and "fst (discover (self\<lparr>try_keywordsurfer := (\<lambda>t. Inl e)\<rparr>) topic w)
           = fst (discover self topic w)"
proof -
  have s2: "\<not> succeeds (try_keywordsurfer self topic)"
    using v by (simp add: succeeds_def)
  show "take 3 (new_events w (snd (discover self topic w))) =
           [Fetch Serpapi (try_serpapi self topic), Fetch Keywordsurfer (Inr v),
            Fetch GoogleTrends (try_google_trends self topic)]"
    using s1 s2 v(1) by (simp add: discover_miss_events [OF miss])
  have miss': "files w (cache_file (self\<lparr>try_keywordsurfer := (\<lambda>t. Inl e)\<rparr>) topic) = None"
    using miss by (simp add: cache_file_def)
  show "fst (discover (self\<lparr>try_keywordsurfer := (\<lambda>t. Inl e)\<rparr>) topic w)
           = fst (discover self topic w)"
    unfolding discover_miss_result [OF miss] discover_miss_result [OF miss']
    using s1 s2 by (simp add: succeeds_def cache_file_def)
qed

lemma falsy_google_trends:
  assumes miss: "files w (cache_file self topic) = None"
      and s1: "\<not> succeeds (try_serpapi self topic)"
      and s2: "\<not> succeeds (try_keywordsurfer self topic)"
      and v: "try_google_trends self topic = Inr v" "\<not> truthy v"
  shows "new_events w (snd (discover self topic w)) =
           [Fetch Serpapi (try_serpapi self topic),
            Fetch Keywordsurfer (try_keywordsurfer self topic),
            Fetch GoogleTrends (Inr v), Fallback]"
    and "fst (discover (self\<lparr>try_google_trends := (\<lambda>t. Inl e)\<rparr>) topic w)
           = fst (discover self topic w)"
proof -
  have s3: "\<not> succeeds (try_google_trends self topic)"
    using v by (simp add: succeeds_def)
  show "new_events w (snd (discover self topic w)) =
           [Fetch Serpapi (try_serpapi self topic),
            Fetch Keywordsurfer (try_keywordsurfer self topic),
            Fetch GoogleTrends (Inr v), Fallback]"
    using s1 s2 s3 v(1) by (simp add: discover_miss_events [OF miss])
  have miss': "files w (cache_file (self\<lparr>try_google_trends := (\<lambda>t. Inl e)\<rparr>) topic) = None"
    using miss by (simp add: cache_file_def)
  show "fst (discover (self\<lparr>try_google_trends := (\<lambda>t. Inl e)\<rparr>) topic w)
           = fst (discover self topic w)"
    unfolding discover_miss_result [OF miss] discover_miss_result [OF miss']
    using s1 s2 s3 by (simp add: succeeds_def cache_file_def)
qed

lemmas example_defs =
  default_discovery_def offline_discovery_def second_discovery_def empty_discovery_def
  raising_def fresh_world_def flat_cache_world_def corrupt_cache_world_def
  warm_cache_world_def cache_file_def cache_key_def path_join_def str_replace_def

text \<open>
  C8. The cache key is the topic with every space replaced by one underscore and every
  other character kept, so it is as long as the topic and runs of spaces are not
  collapsed: \<^verbatim>\<open>machine learning\<close> and \<^verbatim>\<open>machine  learning\<close> (two spaces) have
  different keys and, for every cache directory, different cache files.
\<close>

theorem cache_key_spaces_to_underscores:
  "cache_key topic = map (\<lambda>c. if c = CHR '' '' then CHR ''_'' else c) topic
   \<and> length (cache_key topic) = length topic
   \<and> cache_key ''machine learning'' = ''machine_learning''
   \<and> cache_key ''machine  learning'' = ''machine__learning''
   \<and> cache_key ''machine learning'' \<noteq> cache_key ''machine  learning''
   \<and> cache_file self ''machine learning'' \<noteq> cache_file self ''machine  learning''"
proof -
  have key: "cache_key t = map (\<lambda>c. if c = CHR '' '' then CHR ''_'' else c) t" for t
    by (simp add: cache_key_def str_replace_char)
  have "cache_file self ''machine learning'' \<noteq> cache_file self ''machine  learning''"
    by (simp add: cache_file_def path_join_def key)
  then show ?thesis
    by (simp add: key)
qed

text \<open>
  C4. When the cache file of the topic exists and holds the document \<open>v\<close>,
  \<^verbatim>\<open>discover\<close> returns \<open>v\<close> as it is and leaves the world as it was: no event is
  added to the trace (no provider and no fallback generator is invoked), the clock is not
  read and no file is written.
\<close>

theorem cache_hit_returns_entry:
  assumes "files w (cache_file self topic) = Some (Inr v)"
  shows "discover self topic w = (Inr v, w)
       \<and> new_events w (snd (discover self topic w)) = []"
  using assms by (simp add: discover_cached new_events_def)

theorem cache_hit_returns_entry_witness:
  "files warm_cache_world (cache_file default_discovery ''espresso machines'')
     = Some (Inr cached_result)
   \<and> discover default_discovery ''espresso machines'' warm_cache_world
     = (Inr cached_result, warm_cache_world)"
proof -
  have h: "files warm_cache_world (cache_file default_discovery ''espresso machines'')
             = Some (Inr cached_result)"
    by (simp add: example_defs)
  show ?thesis
    using h cache_hit_returns_entry [OF h] by simp
qed




text \<open>
  C10. With no cache entry, a provider that returns without raising but yields a falsy
  value is treated as one that failed: the next provider in the order is invoked (after
  serpapi, keywordsurfer; after keywordsurfer, google-trends), or the fallback generator
  when it was the last one; \<^verbatim>\<open>discover\<close> does not return the falsy value; and its
  outcome is the one it has when that provider raises (any exception \<open>e\<close>) instead.
\<close>

theorem falsy_result_counts_as_failure:
  assumes "files w (cache_file self topic) = None"
  shows "(\<forall>v. try_serpapi self topic = Inr v \<and> \<not> truthy v \<longrightarrow>
            take 2 (new_events w (snd (discover self topic w))) =
              [Fetch Serpapi (Inr v), Fetch Keywordsurfer (try_keywordsurfer self topic)] \<and>
            fst (discover self topic w) \<noteq> Inr v \<and>
            fst (discover (self\<lparr>try_serpapi := (\<lambda>t. Inl e)\<rparr>) topic w)
              = fst (discover self topic w))
       \<and> (\<forall>v. \<not> succeeds (try_serpapi self topic) \<and>
              try_keywordsurfer self topic = Inr v \<and> \<not> truthy v \<longrightarrow>
            take 3 (new_events w (snd (discover self topic w))) =
              [Fetch Serpapi (try_serpapi self topic), Fetch Keywordsurfer (Inr v),
               Fetch GoogleTrends (try_google_trends self topic)] \<and>
            fst (discover self topic w) \<noteq> Inr v \<and>
            fst (discover (self\<lparr>try_keywordsurfer := (\<lambda>t. Inl e)\<rparr>) topic w)
              = fst (discover self topic w))
       \<and> (\<forall>v. \<not> succeeds (try_serpapi self topic) \<and>
              \<not> succeeds (try_keywordsurfer self topic) \<and>
              try_google_trends self topic = Inr v \<and> \<not> truthy v \<longrightarrow>
            new_events w (snd (discover self topic w)) =
              [Fetch Serpapi (try_serpapi self topic),
               Fetch Keywordsurfer (try_keywordsurfer self topic),
               Fetch GoogleTrends (Inr v), Fallback] \<and>
            fst (discover self topic w) \<noteq> Inr v \<and>
            fst (discover (self\<lparr>try_google_trends := (\<lambda>t. Inl e)\<rparr>) topic w)
              = fst (discover self topic w))"
  using falsy_serpapi [OF assms] falsy_keywordsurfer [OF assms]
        falsy_google_trends [OF assms] discover_never_falsy [OF assms]
  by blast

theorem falsy_result_counts_as_failure_witness:
  "files fresh_world (cache_file empty_discovery ''espresso machines'') = None
   \<and> try_serpapi empty_discovery ''espresso machines'' = Inr (PDict [])
   \<and> \<not> truthy (PDict [])
   \<and> take 2 (new_events fresh_world
               (snd (discover empty_discovery ''espresso machines'' fresh_world))) =
       [Fetch Serpapi (Inr (PDict [])),
        Fetch Keywordsurfer (sim_keywordsurfer ''espresso machines'')]
   \<and> fst (discover empty_discovery ''espresso machines'' fresh_world)
       = sim_keywordsurfer ''espresso machines''"
proof -
  have h: "files fresh_world (cache_file empty_discovery ''espresso machines'') = None"
    by (simp add: example_defs)
  have s: "try_serpapi empty_discovery ''espresso machines'' = Inr (PDict [])"
    by (simp add: empty_discovery_def)
  have res: "fst (discover empty_discovery ''espresso machines'' fresh_world)
               = sim_keywordsurfer ''espresso machines''"
    unfolding discover_miss_result [OF h]
    by (simp add: example_defs succeeds_def returned_def sim_keywordsurfer_def)
  show ?thesis
    using h s res falsy_result_counts_as_failure [OF h]
    by (simp add: empty_discovery_def default_discovery_def)
qed

text \<open>
  C3, as amended. With no cache entry, when every provider fails and the cache file can
  be written, \<^verbatim>\<open>discover\<close> returns the fallback generator's result: its source is
  \<^verbatim>\<open>fallback_method\<close>, it has no URLs, its three metrics are \<^verbatim>\<open>unknown\<close>, it
  carries the time of its generation, and its related queries are ten strings that each
  contain the topic. The three providers were tried first, in order.
\<close>

theorem all_fail_fallback:
  assumes "files w (cache_file self topic) = None"
      and "\<not> succeeds (try_serpapi self topic)"
      and "\<not> succeeds (try_keywordsurfer self topic)"
      and "\<not> succeeds (try_google_trends self topic)"
      and "write_error w (cache_file self topic) = None"
  shows "\<exists>r qs.
           fst (discover self topic w) = Inr r
         \<and> r = fallback_result topic (clock w (ticks w))
         \<and> new_events w (snd (discover self topic w)) =
             [Fetch Serpapi (try_serpapi self topic),
              Fetch Keywordsurfer (try_keywordsurfer self topic),
              Fetch GoogleTrends (try_google_trends self topic),
              Fallback]
         \<and> py_field r ''source'' = Some (PStr ''fallback_method'')
         \<and> py_field r ''top_urls'' = Some (PList [])
         \<and> py_field r ''metrics'' =
             Some (PDict [(''search_volume'', PStr ''unknown''),
                          (''cpc'', PStr ''unknown''),
                          (''competition'', PStr ''unknown'')])
         \<and> py_field r ''generated_at'' = Some (PStr (clock w (ticks w)))
         \<and> py_field r ''related_queries'' = Some (PList (map PStr qs))
         \<and> length qs = 10
         \<and> (\<forall>q \<in> set qs. sublist topic q)"
proof -
  obtain qs where qs: "fallback_queries topic = map PStr qs" "length qs = 10"
      "\<forall>q \<in> set qs. sublist topic q"
    using fallback_queries_shape by blast
  have res: "fst (discover self topic w) = Inr (fallback_result topic (clock w (ticks w)))"
    using assms(2-5) by (simp add: discover_miss_result [OF assms(1)] returned_def)
  have evs: "new_events w (snd (discover self topic w)) =
             [Fetch Serpapi (try_serpapi self topic),
              Fetch Keywordsurfer (try_keywordsurfer self topic),
              Fetch GoogleTrends (try_google_trends self topic),
              Fallback]"
    using assms(2-4) by (simp add: discover_miss_events [OF assms(1)])
  have fields: "py_field (fallback_result topic now) ''source'' = Some (PStr ''fallback_method'')"
      "py_field (fallback_result topic now) ''top_urls'' = Some (PList [])"
      "py_field (fallback_result topic now) ''metrics'' =
             Some (PDict [(''search_volume'', PStr ''unknown''),
                          (''cpc'', PStr ''unknown''),
                          (''competition'', PStr ''unknown'')])"
      "py_field (fallback_result topic now) ''generated_at'' = Some (PStr now)"
      "py_field (fallback_result topic now) ''related_queries'' = Some (PList (map PStr qs))"
    for now
    by (simp_all add: fallback_result_def qs(1))
  show ?thesis
    using res evs fields qs(2,3) by blast
qed

theorem all_fail_fallback_witness:
  "files fresh_world (cache_file offline_discovery ''espresso machines'') = None
   \<and> \<not> succeeds (try_serpapi offline_discovery ''espresso machines'')
   \<and> \<not> succeeds (try_keywordsurfer offline_discovery ''espresso machines'')
   \<and> \<not> succeeds (try_google_trends offline_discovery ''espresso machines'')
   \<and> write_error fresh_world (cache_file offline_discovery ''espresso machines'') = None
   \<and> fst (discover offline_discovery ''espresso machines'' fresh_world)
       = Inr (fallback_result ''espresso machines'' ''2025-01-01T00:00:00'')"
proof -
  have h: "files fresh_world (cache_file offline_discovery ''espresso machines'') = None"
      "\<not> succeeds (try_serpapi offline_discovery ''espresso machines'')"
      "\<not> succeeds (try_keywordsurfer offline_discovery ''espresso machines'')"
      "\<not> succeeds (try_google_trends offline_discovery ''espresso machines'')"
      "write_error fresh_world (cache_file offline_discovery ''espresso machines'') = None"
    by (simp_all add: example_defs succeeds_def)
  have c: "clock fresh_world (ticks fresh_world) = ''2025-01-01T00:00:00''"
    by (simp add: fresh_world_def)
  show ?thesis
    using h all_fail_fallback [OF h] unfolding c by auto
qed

text \<open>
  The claim as stated fails where the cache file cannot be written: for the topic
  \<^verbatim>\<open>AI/ML\<close> the cache file lies in a subdirectory that does not exist, and with all
  providers failing \<^verbatim>\<open>discover\<close> raises instead of returning the fallback result.
\<close>

theorem all_fail_fallback_counterexample:
  "files flat_cache_world (cache_file offline_discovery ''AI/ML'') = None
   \<and> \<not> succeeds (try_serpapi offline_discovery ''AI/ML'')
   \<and> \<not> succeeds (try_keywordsurfer offline_discovery ''AI/ML'')
   \<and> \<not> succeeds (try_google_trends offline_discovery ''AI/ML'')
   \<and> fst (discover offline_discovery ''AI/ML'' flat_cache_world)
       = Inl (no_such_directory ''cache/keywords/AI/ML.json'')"
  by (simp add: discover_def attempt_def Let_def fallback_method_def succeeds_def example_defs)

text \<open>
  C6, as amended. Starting without a cache entry for the topic, when the first call of
  \<^verbatim>\<open>discover\<close> returns a result \<open>r\<close> (so its cache write succeeded), the second call
  returns the same \<open>r\<close> and leaves the world as the first call left it: no provider is
  invoked.
\<close>

theorem second_call_from_cache:
  assumes "files w (cache_file self topic) = None"
      and "discover self topic w = (Inr r, w1)"
  shows "discover self topic w1 = (Inr r, w1)
       \<and> new_events w1 (snd (discover self topic w1)) = []"
proof -
  have "files w1 (cache_file self topic) = Some (Inr r)"
    using assms
    by (auto simp: discover_def Let_def split: prod.splits option.splits)
  then show ?thesis
    by (simp add: discover_cached new_events_def)
qed

theorem second_call_from_cache_witness:
  "files fresh_world (cache_file default_discovery ''espresso machines'') = None
   \<and> fst (discover default_discovery ''espresso machines'' fresh_world)
       = sim_serpapi ''espresso machines''
   \<and> fst (discover default_discovery ''espresso machines''
            (snd (discover default_discovery ''espresso machines'' fresh_world)))
       = sim_serpapi ''espresso machines''
   \<and> new_events (snd (discover default_discovery ''espresso machines'' fresh_world))
        (snd (discover default_discovery ''espresso machines''
               (snd (discover default_discovery ''espresso machines'' fresh_world))))
       = []"
proof -
  have h: "files fresh_world (cache_file default_discovery ''espresso machines'') = None"
    by (simp add: example_defs)
  obtain r where r: "sim_serpapi ''espresso machines'' = Inr r" "truthy r"
    by (simp add: sim_serpapi_def)
  have s: "try_serpapi default_discovery ''espresso machines'' = Inr r"
    by (simp add: default_discovery_def r)
  have first: "fst (discover default_discovery ''espresso machines'' fresh_world) = Inr r"
    unfolding discover_miss_result [OF h]
    by (simp add: s r succeeds_def returned_def fresh_world_def)
  have eq: "discover default_discovery ''espresso machines'' fresh_world
          = (Inr r, snd (discover default_discovery ''espresso machines'' fresh_world))"
    using first by (simp add: prod_eq_iff)
  show ?thesis
    using h first second_call_from_cache [OF h eq] by (simp add: r new_events_def)
qed

text \<open>
  The claim as stated fails for a topic whose cache file cannot be written: both calls
  for \<^verbatim>\<open>AI/ML\<close> raise, and the second call invokes serpapi again.
\<close>

theorem second_call_from_cache_counterexample:
  "files flat_cache_world (cache_file default_discovery ''AI/ML'') = None
   \<and> fst (discover default_discovery ''AI/ML'' flat_cache_world)
       = Inl (no_such_directory ''cache/keywords/AI/ML.json'')
   \<and> fst (discover default_discovery ''AI/ML''
            (snd (discover default_discovery ''AI/ML'' flat_cache_world)))
       = Inl (no_such_directory ''cache/keywords/AI/ML.json'')
   \<and> new_events (snd (discover default_discovery ''AI/ML'' flat_cache_world))
        (snd (discover default_discovery ''AI/ML''
               (snd (discover default_discovery ''AI/ML'' flat_cache_world))))
       = [Fetch Serpapi (sim_serpapi ''AI/ML'')]"
proof -
  obtain r where r: "sim_serpapi ''AI/ML'' = Inr r" "truthy r"
    by (simp add: sim_serpapi_def)
  show ?thesis
    by (simp add: discover_def attempt_def Let_def new_events_def r example_defs)
qed

text \<open>
  C1, as amended. A cache failure is propagated to the caller of \<^verbatim>\<open>discover\<close>. When
  the cache file exists and reading or decoding it raises \<open>e\<close>, \<^verbatim>\<open>discover\<close> raises
  \<open>e\<close> and does nothing else (no provider is tried). When there is no cache file and
  writing it raises \<open>e\<close>, \<^verbatim>\<open>discover\<close> raises \<open>e\<close> instead of returning the result it
  computed, and the cache is as it was.
\<close>

theorem cache_failure_propagates:
  "(files w (cache_file self topic) = Some (Inl e) \<longrightarrow>
      discover self topic w = (Inl e, w))
   \<and> (files w (cache_file self topic) = None \<and>
      write_error w (cache_file self topic) = Some e \<longrightarrow>
      fst (discover self topic w) = Inl e \<and>
      files (snd (discover self topic w)) = files w)"
proof -
  have "fst (discover self topic w) = Inl e"
    if "files w (cache_file self topic) = None" "write_error w (cache_file self topic) = Some e"
    using that by (simp add: discover_miss_result returned_def)
  moreover have "files (snd (discover self topic w)) = files w"
    if "files w (cache_file self topic) = None" "write_error w (cache_file self topic) = Some e"
    using that
    by (auto simp: discover_def attempt_def Let_def fallback_method_def
             split: sum.splits option.splits)
  ultimately show ?thesis
    by (simp add: discover_cached)
qed

theorem cache_failure_propagates_witness:
  "files corrupt_cache_world (cache_file default_discovery ''espresso machines'')
     = Some (Inl malformed)
   \<and> discover default_discovery ''espresso machines'' corrupt_cache_world
     = (Inl malformed, corrupt_cache_world)"
proof -
  have h: "files corrupt_cache_world (cache_file default_discovery ''espresso machines'')
             = Some (Inl malformed)"
    by (simp add: example_defs)
  show ?thesis
    using h cache_failure_propagates [of corrupt_cache_world default_discovery
        "''espresso machines''" malformed]
    by simp
qed

text \<open>
  The claim as stated fails in both directions: a cache entry that is not a JSON document
  makes \<^verbatim>\<open>discover\<close> raise the decoding error, and a cache file that cannot be
  written makes it raise the error of \<^verbatim>\<open>open\<close>.
\<close>

theorem cache_failure_counterexample:
  "discover default_discovery ''espresso machines'' corrupt_cache_world
     = (Inl malformed, corrupt_cache_world)
   \<and> write_error flat_cache_world (cache_file default_discovery ''AI/ML'')
     = Some (no_such_directory ''cache/keywords/AI/ML.json'')
   \<and> fst (discover default_discovery ''AI/ML'' flat_cache_world)
     = Inl (no_such_directory ''cache/keywords/AI/ML.json'')"
proof -
  obtain r where r: "sim_serpapi ''AI/ML'' = Inr r" "truthy r"
    by (simp add: sim_serpapi_def)
  show ?thesis
    by (simp add: discover_def attempt_def Let_def r example_defs)
qed

section \<open>Properties of the orchestrator\<close>

lemma ok_return: "ok [] (\<lambda>w. (Inr d, w))"
  by (simp add: ok_def stage_events_def shape.completed)

lemma ok_lookup:
  assumes "ks \<noteq> []" and "\<And>x. ok ks (f x)"
  shows "ok ks (bind (lookup entry name) f)"
proof (cases entry)
  case None
  then show ?thesis
    using assms(1) by (auto simp: ok_def bind_def lookup_def stage_events_def intro: shape.aborted)
next
  case (Some x)
  then show ?thesis
    using assms(2) [of x] by (simp add: ok_def bind_def lookup_def)
qed

lemma ok_len:
  assumes "ks \<noteq> []" and "\<And>n. ok ks (f n)"
  shows "ok ks (bind (len_of v) f)"
proof (cases "py_len v")
  case (Inl e)
  then show ?thesis
    using assms(1) by (auto simp: ok_def bind_def len_of_def stage_events_def intro: shape.aborted)
next
  case (Inr n)
  then show ?thesis
    using assms(2) [of n] by (simp add: ok_def bind_def len_of_def)
qed

lemma ok_step:
  assumes step: "\<And>w. \<exists>out w1 fs. p w = (out, w1) \<and> trace w1 = trace w @ fs @ [Stage k out]
                   \<and> stage_events fs = []"
      and rest: "\<And>v. ok ks (f v)"
  shows "ok (k # ks) (bind p f)"
  unfolding ok_def
proof (intro allI impI)
  fix w res w'
  assume run: "bind p f w = (res, w')"
  obtain out w1 fs where p: "p w = (out, w1)"
    and w1: "trace w1 = trace w @ fs @ [Stage k out]"
    and fs: "stage_events fs = []"
    using step [of w] by blast
  show "\<exists>new. trace w' = trace w @ new \<and> shape (k # ks) (stage_events new) res"
  proof (cases out)
    case (Inl e)
    with run p w1 have "res = Inl e" and "trace w' = trace w @ fs @ [Stage k (Inl e)]"
      by (auto simp: bind_def)
    moreover have "stage_events (fs @ [Stage k (Inl e)]) = [Stage k (Inl e)]"
      using fs by (simp add: stage_events_def)
    ultimately show ?thesis
      using shape.raised [of k ks e] by metis
  next
    case (Inr v)
    with run p have "f v w1 = (res, w')"
      by (simp add: bind_def)
    with rest [of v] obtain new where
      new: "trace w' = trace w1 @ new"
      and sh: "shape ks (stage_events new) res"
      unfolding ok_def by blast
    have "stage_events (fs @ [Stage k (Inr v)] @ new) = Stage k (Inr v) # stage_events new"
      using fs by (simp add: stage_events_def)
    moreover have "trace w' = trace w @ fs @ [Stage k (Inr v)] @ new"
      using new w1 Inr by simp
    ultimately show ?thesis
      using sh shape.returned [of ks "stage_events new" res k v] by metis
  qed
qed

lemma ok_call:
  assumes "\<And>v. ok ks (f v)"
  shows "ok (k # ks) (bind (call k out) f)"
proof (rule ok_step [OF _ assms])
  fix w
  show "\<exists>out' w1 fs. call k out w = (out', w1) \<and> trace w1 = trace w @ fs @ [Stage k out']
          \<and> stage_events fs = []"
    by (intro exI [of _ out] exI [of _ "w\<lparr>trace := trace w @ [Stage k out]\<rparr>"] exI [of _ "[]"])
       (simp add: call_def stage_events_def)
qed

lemma ok_discover:
  assumes "\<And>v. ok ks (f v)"
  shows "ok (Discover # ks) (bind (call_discover kd topic) f)"
proof (rule ok_step [OF _ assms])
  fix w
  obtain fs where fs: "trace (snd (discover kd topic w)) = trace w @ fs" "stage_events fs = []"
    using discover_trace by blast
  then show "\<exists>out w1 fs. call_discover kd topic w = (out, w1)
          \<and> trace w1 = trace w @ fs @ [Stage Discover out] \<and> stage_events fs = []"
    by (auto simp: call_discover_def split: prod.splits)
qed

lemma ok_run_try: "ok stage_order (run_try m topic)"
  unfolding run_try_def stage_order_def
  by (intro ok_lookup ok_discover ok_call ok_len ok_return) simp_all

lemma run_try_shape:
  assumes "run_try m topic w = (out, w')"
  shows "trace w' = trace w @ new_events w w'"
    and "shape stage_order (stage_events (new_events w w')) out"
  using ok_run_try [of m topic] assms unfolding ok_def new_events_def by fastforce+

lemma stages_of_stage_events: "stages_of (stage_events evs) = stages_of evs"
  by (induction evs rule: stages_of.induct) (simp_all add: stage_events_def)

lemma shape_raise:
  assumes "shape ks evs out" and "Stage k (Inl e) \<in> set evs" and "distinct ks"
  shows "out = Inl e \<and> (\<exists>pre. evs = pre @ [Stage k (Inl e)])
         \<and> stages_of evs = takeWhile (\<lambda>s. s \<noteq> k) ks @ [k]
         \<and> k \<in> set ks"
  using assms
proof (induction rule: shape.induct)
  case (returned ks evs out k0 v)
  then have ih: "out = Inl e" "\<exists>pre. evs = pre @ [Stage k (Inl e)]"
     "stages_of evs = takeWhile (\<lambda>s. s \<noteq> k) ks @ [k]" "k \<in> set ks"
    by auto
  from ih(4) returned.prems(2) have "k0 \<noteq> k" by auto
  with ih show ?case by (auto intro: exI [of _ "Stage k0 (Inr v) # _"])
qed auto

lemma shape_all_return:
  assumes "shape ks evs out" and "\<forall>ev \<in> set evs. returns ev" and "length evs = length ks"
  shows "\<exists>d. out = Inr d"
  using assms by (induction rule: shape.induct) auto


lemma bind_Inr:
  "bind p f w = (Inr d, w') \<Longrightarrow> \<exists>x w1. p w = (Inr x, w1) \<and> f x w1 = (Inr d, w')"
  by (auto simp: bind_def split: prod.splits sum.splits)

lemma lookup_Inr: "lookup entry name w = (Inr x, w1) \<Longrightarrow> entry = Some x \<and> w1 = w"
  by (auto simp: lookup_def split: option.splits)

lemma len_of_Inr: "len_of v w = (Inr n, w1) \<Longrightarrow> w1 = w"
  by (simp add: len_of_def)

lemma call_Inr:
  "call k out w = (Inr v, w1) \<Longrightarrow> out = Inr v \<and> trace w1 = trace w @ [Stage k (Inr v)]"
  by (auto simp: call_def)

lemma call_discover_Inr:
  "call_discover kd topic w = (Inr v, w1) \<Longrightarrow>
     \<exists>fs. trace w1 = trace w @ fs @ [Stage Discover (Inr v)] \<and> stage_events fs = []"
  using discover_trace [of kd topic w]
  by (auto simp: call_discover_def split: prod.splits)

lemma run_try_success:
  assumes "run_try m topic w = (Inr d, w')"
  shows "\<exists>keywords c0 c1 images url monetized social_posts email_draft tracking.
           stage_events (new_events w w') =
             [Stage Discover (Inr keywords), Stage Create (Inr c0), Stage Check (Inr c1),
              Stage Generate (Inr images), Stage Publish (Inr url),
              Stage Apply (Inr monetized), Stage Promote (Inr social_posts),
              Stage Draft (Inr email_draft), Stage SetupTracking (Inr tracking)]
         \<and> d = [(''status'', PStr ''success''), (''url'', url),
                (''social_posts'', social_posts), (''email_draft'', email_draft)]"
  using assms unfolding run_try_def
  by (auto dest!: bind_Inr lookup_Inr len_of_Inr call_Inr call_discover_Inr
           simp: new_events_def stage_events_def)


lemma distinct_stage_order: "distinct stage_order"
  by (simp add: stage_order_def)

lemma keeps_bind:
  assumes "keeps_stdout p" and "\<And>x. keeps_stdout (f x)"
  shows "keeps_stdout (bind p f)"
  unfolding keeps_stdout_def
proof
  fix w
  show "stdout (snd (bind p f w)) = stdout w"
  proof (cases "p w")
    case (Pair out w1)
    then have w1: "stdout w1 = stdout w"
      using assms(1) [unfolded keeps_stdout_def, rule_format, of w] by simp
    show ?thesis
    proof (cases out)
      case (Inl e)
      with Pair w1 show ?thesis by (simp add: bind_def)
    next
      case (Inr x)
      with Pair w1 assms(2) [unfolded keeps_stdout_def, rule_format, of x w1]
      show ?thesis by (simp add: bind_def)
    qed
  qed
qed

lemma keeps_lookup: "keeps_stdout (lookup entry name)"
  by (simp add: keeps_stdout_def lookup_def split: option.splits)

lemma keeps_call: "keeps_stdout (call k out)"
  by (simp add: keeps_stdout_def call_def)

lemma keeps_len_of: "keeps_stdout (len_of v)"
  by (simp add: keeps_stdout_def len_of_def)

lemma keeps_call_discover: "keeps_stdout (call_discover kd topic)"
  using discover_stdout [of kd topic]
  by (simp add: keeps_stdout_def call_discover_def split: prod.splits)
     (metis snd_conv)

lemma keeps_return: "keeps_stdout (\<lambda>w. (Inr d, w))"
  by (simp add: keeps_stdout_def)

lemma keeps_run_try: "keeps_stdout (run_try m topic)"
  unfolding run_try_def
  by (intro keeps_bind keeps_lookup keeps_call keeps_len_of keeps_call_discover keeps_return)

lemma run_stdout: "stdout (snd (run m topic w)) = stdout w"
proof (cases "run_try m topic w")
  case (Pair out w')
  then have "stdout w' = stdout w"
    using keeps_run_try [of m topic, unfolded keeps_stdout_def, rule_format, of w] by simp
  with Pair show ?thesis
    by (cases out) (simp_all add: run_def)
qed

lemma run_status:
  "map_of (fst (run m topic w)) ''status'' = Some (PStr ''success'')
   \<or> map_of (fst (run m topic w)) ''status'' = Some (PStr ''error'')"
proof (cases "run_try m topic w")
  case (Pair out w')
  show ?thesis
  proof (cases out)
    case (Inl e)
    with Pair show ?thesis by (simp add: run_def)
  next
    case (Inr d)
    with Pair run_try_success [of m topic w d w'] show ?thesis
      by (auto simp: run_def)
  qed
qed


lemma stub_keywords:
  "discover default_discovery ''remote work'' fresh_world =
     (sim_serpapi ''remote work'',
      fresh_world\<lparr>trace := [Fetch Serpapi (sim_serpapi ''remote work'')],
                  files := (files fresh_world)
                    (''cache/keywords/remote_work.json'' \<mapsto> sim_serpapi ''remote work'')\<rparr>)"
proof -
  obtain r where r: "sim_serpapi ''remote work'' = Inr r" "truthy r"
    by (simp add: sim_serpapi_def)
  show ?thesis
    by (simp add: discover_def attempt_def Let_def r example_defs)
qed

lemma stub_pipeline: "BlogPipeline_init stub_env ''config.yaml'' = stub_modules"
  by (simp add: BlogPipeline_init_def load_config_def load_modules_def then_load_def
        register_def construct_def KeywordDiscovery_init_def stub_env_def stub_modules_def
        empty_modules_def default_discovery_def)

lemma stub_run_result:
  "fst (run stub_modules ''remote work'' fresh_world) =
       [(''status'', PStr ''success''),
        (''url'', PStr ''https://blog.example.com/remote-work''),
        (''social_posts'', PList [PStr ''post 1'', PStr ''post 2'']),
        (''email_draft'', PStr ''newsletter'')]"
proof -
  obtain r where r: "sim_serpapi ''remote work'' = Inr r"
    by (simp add: sim_serpapi_def)
  show ?thesis
    by (simp add: run_def run_try_def bind_def lookup_def call_def call_discover_def
          len_of_def stub_modules_def stub_keywords r)
qed

text \<open>
  Two facts about the log of stage calls of any run: a stage call that raised is the last
  stage call, the stages called are those up to it in the fixed order, and the run
  returns the error result; and when the log shows nine returns, the run returns the
  success result with the values logged for \<^verbatim>\<open>publish\<close>, \<^verbatim>\<open>promote\<close> and
  \<^verbatim>\<open>draft\<close>.
\<close>

lemma raising_call_ends_run:
  assumes "run m topic w = (result, w')"
      and "Stage k (Inl e) \<in> set (new_events w w')"
  shows "result = [(''status'', PStr ''error''), (''message'', PStr (exn_str e))]
       \<and> stages_of (new_events w w') = stages_upto k
       \<and> (\<exists>pre. stage_events (new_events w w') = pre @ [Stage k (Inl e)])"
proof -
  obtain out where rt: "run_try m topic w = (out, w')"
    using assms(1) by (auto simp: run_def split: prod.splits sum.splits)
  have sh: "shape stage_order (stage_events (new_events w w')) out"
    using run_try_shape(2) [OF rt] .
  have mem: "Stage k (Inl e) \<in> set (stage_events (new_events w w'))"
    using assms(2) by (simp add: stage_events_def)
  from shape_raise [OF sh mem distinct_stage_order]
  have out: "out = Inl e"
    and last: "\<exists>pre. stage_events (new_events w w') = pre @ [Stage k (Inl e)]"
    and upto: "stages_of (stage_events (new_events w w')) = stages_upto k"
    by (simp_all add: stages_upto_def)
  from rt out assms(1) have "result = [(''status'', PStr ''error''), (''message'', PStr (exn_str e))]"
    by (simp add: run_def)
  with last upto show ?thesis
    by (simp add: stages_of_stage_events)
qed

lemma nine_returns_give_success:
  assumes "run m topic w = (result, w')"
      and "stage_events (new_events w w') =
             [Stage Discover (Inr keywords), Stage Create (Inr c0), Stage Check (Inr c1),
              Stage Generate (Inr images), Stage Publish (Inr url),
              Stage Apply (Inr monetized), Stage Promote (Inr social_posts),
              Stage Draft (Inr email_draft), Stage SetupTracking (Inr tracking)]"
  shows "result = [(''status'', PStr ''success''), (''url'', url),
                   (''social_posts'', social_posts), (''email_draft'', email_draft)]"
proof -
  obtain out where rt: "run_try m topic w = (out, w')"
    using assms(1) by (auto simp: run_def split: prod.splits sum.splits)
  have sh: "shape stage_order (stage_events (new_events w w')) out"
    using run_try_shape(2) [OF rt] .
  have "\<exists>d. out = Inr d"
    by (rule shape_all_return [OF sh]) (simp_all add: assms(2) stage_order_def)
  then obtain d where d: "out = Inr d" ..
  with rt assms(1) have res: "result = d"
    by (simp add: run_def)
  from run_try_success [OF rt [unfolded d]] assms(2) res show ?thesis
    by auto
qed

text \<open>
  C5. Whichever of the nine stage invocations raises an exception \<open>e\<close>, \<^verbatim>\<open>run\<close>
  returns (it does not raise) the result with status \<^verbatim>\<open>error\<close> and the message
  \<open>str(e)\<close>, and no later stage is invoked. One case for each stage: the stage is
  reached (the stages before it are loaded and returned, each on the values the earlier
  ones returned, and the \<^verbatim>\<open>len()\<close> calls on the way succeeded), it is loaded, and its
  method raises \<open>e\<close>. The stage calls the run adds to the trace are then exactly the
  returns of the earlier stages and the raise of this one.
\<close>

theorem run_stage_raises:
  "(keyword m = Some kd \<and>
      discover kd topic w = (Inl e, w') \<longrightarrow>
        run m topic w =
          (error_result e,
           w'\<lparr>trace := trace w' @
             [Stage Discover (Inl e)]\<rparr>))
   \<and> (keyword m = Some kd \<and>
      discover kd topic w = (Inr kw, w') \<and>
      content m = Some create \<and>
      create kw = Inl e \<longrightarrow>
        run m topic w =
          (error_result e,
           w'\<lparr>trace := trace w' @
             [Stage Discover (Inr kw),
              Stage Create (Inl e)]\<rparr>))
   \<and> (keyword m = Some kd \<and>
      discover kd topic w = (Inr kw, w') \<and>
      content m = Some create \<and>
      create kw = Inr written \<and>
      grammar m = Some check \<and>
      check written = Inl e \<longrightarrow>
        run m topic w =
          (error_result e,
           w'\<lparr>trace := trace w' @
             [Stage Discover (Inr kw),
              Stage Create (Inr written),
              Stage Check (Inl e)]\<rparr>))
   \<and> (keyword m = Some kd \<and>
      discover kd topic w = (Inr kw, w') \<and>
      content m = Some create \<and>
      create kw = Inr written \<and>
      grammar m = Some check \<and>
      check written = Inr checked \<and>
      visual m = Some generate \<and>
      generate checked = Inl e \<longrightarrow>
        run m topic w =
          (error_result e,
           w'\<lparr>trace := trace w' @
             [Stage Discover (Inr kw),
              Stage Create (Inr written),
              Stage Check (Inr checked),
              Stage Generate (Inl e)]\<rparr>))
   \<and> (keyword m = Some kd \<and>
      discover kd topic w = (Inr kw, w') \<and>
      content m = Some create \<and>
      create kw = Inr written \<and>
      grammar m = Some check \<and>
      check written = Inr checked \<and>
      visual m = Some generate \<and>
      generate checked = Inr images \<and>
      py_len images = Inr n_images \<and>
      publish m = Some publish_to \<and>
      publish_to checked images = Inl e \<longrightarrow>
        run m topic w =
          (error_result e,
           w'\<lparr>trace := trace w' @
             [Stage Discover (Inr kw),
              Stage Create (Inr written),
              Stage Check (Inr checked),
              Stage Generate (Inr images),
              Stage Publish (Inl e)]\<rparr>))
   \<and> (keyword m = Some kd \<and>
      discover kd topic w = (Inr kw, w') \<and>
      content m = Some create \<and>
      create kw = Inr written \<and>
      grammar m = Some check \<and>
      check written = Inr checked \<and>
      visual m = Some generate \<and>
      generate checked = Inr images \<and>
      py_len images = Inr n_images \<and>
      publish m = Some publish_to \<and>
      publish_to checked images = Inr url \<and>
      monetize m = Some apply_to \<and>
      apply_to checked url = Inl e \<longrightarrow>
        run m topic w =
          (error_result e,
           w'\<lparr>trace := trace w' @
             [Stage Discover (Inr kw),
              Stage Create (Inr written),
              Stage Check (Inr checked),
              Stage Generate (Inr images),
              Stage Publish (Inr url),
              Stage Apply (Inl e)]\<rparr>))
   \<and> (keyword m = Some kd \<and>
      discover kd topic w = (Inr kw, w') \<and>
      content m = Some create \<and>
      create kw = Inr written \<and>
      grammar m = Some check \<and>
      check written = Inr checked \<and>
      visual m = Some generate \<and>
      generate checked = Inr images \<and>
      py_len images = Inr n_images \<and>
      publish m = Some publish_to \<and>
      publish_to checked images = Inr url \<and>
      monetize m = Some apply_to \<and>
      apply_to checked url = Inr monetized \<and>
      social m = Some promote \<and>
      promote url checked = Inl e \<longrightarrow>
        run m topic w =
          (error_result e,
           w'\<lparr>trace := trace w' @
             [Stage Discover (Inr kw),
              Stage Create (Inr written),
              Stage Check (Inr checked),
              Stage Generate (Inr images),
              Stage Publish (Inr url),
              Stage Apply (Inr monetized),
              Stage Promote (Inl e)]\<rparr>))
   \<and> (keyword m = Some kd \<and>
      discover kd topic w = (Inr kw, w') \<and>
      content m = Some create \<and>
      create kw = Inr written \<and>
      grammar m = Some check \<and>
      check written = Inr checked \<and>
      visual m = Some generate \<and>
      generate checked = Inr images \<and>
      py_len images = Inr n_images \<and>
      publish m = Some publish_to \<and>
      publish_to checked images = Inr url \<and>
      monetize m = Some apply_to \<and>
      apply_to checked url = Inr monetized \<and>
      social m = Some promote \<and>
      promote url checked = Inr social_posts \<and>
      py_len social_posts = Inr n_posts \<and>
      email m = Some draft \<and>
      draft url checked = Inl e \<longrightarrow>
        run m topic w =
          (error_result e,
           w'\<lparr>trace := trace w' @
             [Stage Discover (Inr kw),
              Stage Create (Inr written),
              Stage Check (Inr checked),
              Stage Generate (Inr images),
              Stage Publish (Inr url),
              Stage Apply (Inr monetized),
              Stage Promote (Inr social_posts),
              Stage Draft (Inl e)]\<rparr>))
   \<and> (keyword m = Some kd \<and>
      discover kd topic w = (Inr kw, w') \<and>
      content m = Some create \<and>
      create kw = Inr written \<and>
      grammar m = Some check \<and>
      check written = Inr checked \<and>
      visual m = Some generate \<and>
      generate checked = Inr images \<and>
      py_len images = Inr n_images \<and>
      publish m = Some publish_to \<and>
      publish_to checked images = Inr url \<and>
      monetize m = Some apply_to \<and>
      apply_to checked url = Inr monetized \<and>
      social m = Some promote \<and>
      promote url checked = Inr social_posts \<and>
      py_len social_posts = Inr n_posts \<and>
      email m = Some draft \<and>
      draft url checked = Inr email_draft \<and>
      analytics m = Some setup_tracking \<and>
      setup_tracking url = Inl e \<longrightarrow>
        run m topic w =
          (error_result e,
           w'\<lparr>trace := trace w' @
             [Stage Discover (Inr kw),
              Stage Create (Inr written),
              Stage Check (Inr checked),
              Stage Generate (Inr images),
              Stage Publish (Inr url),
              Stage Apply (Inr monetized),
              Stage Promote (Inr social_posts),
              Stage Draft (Inr email_draft),
              Stage SetupTracking (Inl e)]\<rparr>))"
  by (simp_all add: run_def run_try_def bind_def lookup_def call_def call_discover_def
        len_of_def)

theorem run_stage_raises_witness:
  "keyword grammar_fails = Some default_discovery
   \<and> discover default_discovery ''remote work'' fresh_world =
       (sim_serpapi ''remote work'', discovered_world)
   \<and> the (content grammar_fails) (projr (sim_serpapi ''remote work'')) = Inr (PStr ''draft'')
   \<and> the (grammar grammar_fails) (PStr ''draft'') =
       Inl (Exn ''ValueError'' ''style check failed'')
   \<and> run grammar_fails ''remote work'' fresh_world =
       ([(''status'', PStr ''error''), (''message'', PStr ''style check failed'')],
        (discovered_world)
          \<lparr>trace := trace (discovered_world) @
             [Stage Discover (sim_serpapi ''remote work''),
              Stage Create (Inr (PStr ''draft'')),
              Stage Check (Inl (Exn ''ValueError'' ''style check failed''))]\<rparr>)"
proof -
  obtain r where r: "sim_serpapi ''remote work'' = Inr r"
    by (simp add: sim_serpapi_def)
  have d: "discover default_discovery ''remote work'' fresh_world =
             (Inr r, discovered_world)"
    by (simp add: stub_keywords discovered_world_def r)
  have "run grammar_fails ''remote work'' fresh_world =
          (error_result (Exn ''ValueError'' ''style check failed''),
           discovered_world\<lparr>trace := trace discovered_world @
             [Stage Discover (Inr r),
              Stage Create (Inr (PStr ''draft'')),
              Stage Check (Inl (Exn ''ValueError'' ''style check failed''))]\<rparr>)"
    by (rule run_stage_raises
          [where m = grammar_fails and kd = default_discovery and kw = r
             and create = "\<lambda>kw. Inr (PStr ''draft'')" and written = "PStr ''draft''"
             and check = "\<lambda>body. Inl (Exn ''ValueError'' ''style check failed'')",
           THEN conjunct2, THEN conjunct2, THEN conjunct1, rule_format])
       (simp add: grammar_fails_def stub_modules_def d)
  then show ?thesis
    by (simp add: grammar_fails_def stub_modules_def r stub_keywords discovered_world_def)
qed




section \<open>Properties of the entry point\<close>

text \<open>
  C9, as amended. For every invocation for which \<^verbatim>\<open>parse_args\<close> returns and
  \<^verbatim>\<open>json.dumps\<close> serialises the pipeline result, the script prints exactly one
  document, that result formatted by \<^verbatim>\<open>json.dumps(result, indent=2)\<close>, whatever its
  status, and exits with status 0 if and only if the status field of the result is
  \<^verbatim>\<open>success\<close>, and with status 1 otherwise.
\<close>

theorem script_prints_result:
  assumes "script env (Namespace topic config_path) w = (status, w')"
      and "json_dumps env 2 (PDict (fst (run (BlogPipeline_init env config_path) topic w)))
             = Inr document"
  shows "stdout w' = stdout w @ [document]
       \<and> (status = 0 \<longleftrightarrow>
            map_of (fst (run (BlogPipeline_init env config_path) topic w)) ''status''
              = Some (PStr ''success''))
       \<and> (status = 0 \<or> status = 1)"
  using assms run_status [of "BlogPipeline_init env config_path" topic w]
        run_stdout [of "BlogPipeline_init env config_path" topic w]
  by (auto simp: script_def main_def Let_def dict_getitem_def
           split: prod.splits sum.splits if_splits)

theorem script_prints_result_witness:
  "json_dumps stub_env 2
      (PDict (fst (run (BlogPipeline_init stub_env ''config.yaml'') ''remote work'' fresh_world)))
     = Inr ''{}''
   \<and> fst (script stub_env (Namespace ''remote work'' ''config.yaml'') fresh_world) = 0
   \<and> stdout (snd (script stub_env (Namespace ''remote work'' ''config.yaml'') fresh_world)) =
       [''{}'']
   \<and> map_of (fst (run (BlogPipeline_init stub_env ''config.yaml'') ''remote work'' fresh_world))
        ''status'' = Some (PStr ''success'')"
proof -
  have eq: "script stub_env (Namespace ''remote work'' ''config.yaml'') fresh_world =
      (fst (script stub_env (Namespace ''remote work'' ''config.yaml'') fresh_world),
       snd (script stub_env (Namespace ''remote work'' ''config.yaml'') fresh_world))"
    by simp
  have doc: "json_dumps stub_env 2
      (PDict (fst (run (BlogPipeline_init stub_env ''config.yaml'') ''remote work'' fresh_world)))
     = Inr ''{}''"
    by (simp add: stub_env_def)
  have out: "stdout fresh_world = []"
    by (simp add: fresh_world_def)
  show ?thesis
    using doc script_prints_result [OF eq doc]
    by (simp add: stub_pipeline stub_run_result out)
qed

text \<open>
  The claim as stated fails for the invocations that \<^verbatim>\<open>parse_args\<close> ends itself: with
  no topic on the command line the process exits with status 2 and prints nothing on
  standard output; with \<^verbatim>\<open>--help\<close> it exits with status 0 after printing the help
  text, and no pipeline result.
\<close>

theorem script_prints_result_counterexample:
  "fst (script stub_env (Exits 2 []) fresh_world) = 2
   \<and> stdout (snd (script stub_env (Exits 2 []) fresh_world)) = []
   \<and> fst (script stub_env (Exits 0 [help_text]) fresh_world) = 0
   \<and> stdout (snd (script stub_env (Exits 0 [help_text]) fresh_world)) = [help_text]"
  by (simp add: script_def main_def fresh_world_def)

end
